theory Spec2Isabelle
  imports Complex_Main "HOL-Library.Sublist"
begin

section \<open>JavaScript values used by the price and metrics layer\<close>

text \<open>
  A JavaScript \<^verbatim>\<open>number\<close> is modelled as a real number or one of the three
  non-finite values. Finite arithmetic is exact (binary64 rounding and the sign of
  zero are not modelled); what the program does at a zero denominator is written out,
  because HOL's own \<open>x / 0\<close> is \<open>0\<close> and JavaScript's is not.
\<close>

datatype jsnum = Fin real | PosInf | NegInf | NaN

fun isNaN :: "jsnum \<Rightarrow> bool" where
  "isNaN NaN = True"
| "isNaN _ = False"

text \<open>\<^verbatim>\<open>a < b\<close> and \<^verbatim>\<open>a > b\<close> on numbers: false as soon as one side is NaN.\<close>

fun js_lt :: "jsnum \<Rightarrow> jsnum \<Rightarrow> bool" where
  "js_lt NaN _ = False"
| "js_lt _ NaN = False"
| "js_lt (Fin a) (Fin b) = (a < b)"
| "js_lt (Fin _) PosInf = True"
| "js_lt (Fin _) NegInf = False"
| "js_lt PosInf _ = False"
| "js_lt NegInf NegInf = False"
| "js_lt NegInf _ = True"

definition js_gt :: "jsnum \<Rightarrow> jsnum \<Rightarrow> bool" where
  "js_gt a b = js_lt b a"

fun js_abs :: "jsnum \<Rightarrow> jsnum" where
  "js_abs (Fin a) = Fin \<bar>a\<bar>"
| "js_abs PosInf = PosInf"
| "js_abs NegInf = PosInf"
| "js_abs NaN = NaN"

fun js_neg :: "jsnum \<Rightarrow> jsnum" where
  "js_neg (Fin a) = Fin (- a)"
| "js_neg PosInf = NegInf"
| "js_neg NegInf = PosInf"
| "js_neg NaN = NaN"

fun js_mul :: "jsnum \<Rightarrow> jsnum \<Rightarrow> jsnum" where
  "js_mul NaN _ = NaN"
| "js_mul _ NaN = NaN"
| "js_mul (Fin a) (Fin b) = Fin (a * b)"
| "js_mul (Fin a) PosInf = (if a = 0 then NaN else if 0 < a then PosInf else NegInf)"
| "js_mul (Fin a) NegInf = (if a = 0 then NaN else if 0 < a then NegInf else PosInf)"
| "js_mul PosInf (Fin b) = (if b = 0 then NaN else if 0 < b then PosInf else NegInf)"
| "js_mul NegInf (Fin b) = (if b = 0 then NaN else if 0 < b then NegInf else PosInf)"
| "js_mul PosInf PosInf = PosInf"
| "js_mul PosInf NegInf = NegInf"
| "js_mul NegInf PosInf = NegInf"
| "js_mul NegInf NegInf = PosInf"

text \<open>
  \<^verbatim>\<open>a / b\<close>: a finite non-zero numerator over zero is an infinity of the numerator's
  sign, and \<^verbatim>\<open>0 / 0\<close> is NaN.
\<close>

fun js_div :: "jsnum \<Rightarrow> jsnum \<Rightarrow> jsnum" where
  "js_div NaN _ = NaN"
| "js_div _ NaN = NaN"
| "js_div (Fin a) (Fin b) =
     (if b \<noteq> 0 then Fin (a / b)
      else if 0 < a then PosInf else if a < 0 then NegInf else NaN)"
| "js_div (Fin _) PosInf = Fin 0"
| "js_div (Fin _) NegInf = Fin 0"
| "js_div PosInf (Fin b) = (if b < 0 then NegInf else PosInf)"
| "js_div NegInf (Fin b) = (if b < 0 then PosInf else NegInf)"
| "js_div PosInf _ = NaN"
| "js_div NegInf _ = NaN"

text \<open>
  The interfaces of the market-data client declare their leaves as \<^verbatim>\<open>number\<close>; the
  JSON that arrives may leave such a field out or carry \<^verbatim>\<open>null\<close>, which is what the
  \<^verbatim>\<open>typeof\<close> and truthiness guards of the code are for. A leaf is therefore a
  number, \<^verbatim>\<open>undefined\<close> or \<^verbatim>\<open>null\<close>; JSON numbers are finite.
\<close>

datatype jsval = Undefined | Null | Num real

fun typeof_number :: "jsval \<Rightarrow> bool" where
  "typeof_number (Num _) = True"
| "typeof_number _ = False"

fun truthy :: "jsval \<Rightarrow> bool" where
  "truthy (Num r) = (r \<noteq> 0)"
| "truthy _ = False"

fun ToNumber :: "jsval \<Rightarrow> jsnum" where
  "ToNumber Undefined = NaN"
| "ToNumber Null = Fin 0"
| "ToNumber (Num r) = Fin r"

subsection \<open>Printing numbers\<close>

definition digit_char :: "nat \<Rightarrow> char" where
  "digit_char d = ''0123456789'' ! d"

fun show_nat :: "nat \<Rightarrow> string" where
  "show_nat n = (if n < 10 then [digit_char n] else show_nat (n div 10) @ [digit_char (n mod 10)])"

text \<open>
  \<^verbatim>\<open>Number.prototype.toFixed(f)\<close>: the sign is split off, the magnitude is rounded
  to the nearest multiple of \<open>10\<^sup>-\<^sup>f\<close> (the larger one on a tie), and the digits are
  padded with zeros so that at least one stands before the point. From \<open>10\<^sup>2\<^sup>1\<close>
  on JavaScript changes to exponent notation, whose digits depend on the binary64
  representation; the model keeps positional notation there.
\<close>

definition toFixed :: "nat \<Rightarrow> jsnum \<Rightarrow> string" where
  "toFixed f x =
     (case x of
        NaN \<Rightarrow> ''NaN''
      | PosInf \<Rightarrow> ''Infinity''
      | NegInf \<Rightarrow> ''-Infinity''
      | Fin r \<Rightarrow>
          (let s = (if r < 0 then ''-'' else '''');
               n = nat \<lfloor>\<bar>r\<bar> * 10 ^ f + 1 / 2\<rfloor>;
               m = show_nat n;
               m = (if f \<noteq> 0 \<and> length m \<le> f then replicate (f + 1 - length m) CHR ''0'' @ m else m);
               k = length m
           in if f \<noteq> 0 then s @ take (k - f) m @ ''.'' @ drop (k - f) m else s @ m))"

section \<open>Backoff-retry fetcher\<close>

text \<open>
  What a \<^verbatim>\<open>catch\<close> clause can receive: an \<^verbatim>\<open>Error\<close> with its message, a
  \<^verbatim>\<open>TypeError\<close> (its message is the engine's), or a value that is no \<^verbatim>\<open>Error\<close>.
\<close>

datatype thrown = ErrorObj string | TypeError | NonError

text \<open>
  A \<^verbatim>\<open>Response\<close>: status, status text, and what \<^verbatim>\<open>response.json()\<close> yields
  (the parsed body, or the rejection). \<^verbatim>\<open>response.ok\<close> is the status range 200-299.
\<close>

datatype 'b response = Response (status: nat) (statusText: string) (json: "thrown + 'b")

definition ok :: "'b response \<Rightarrow> bool" where
  "ok r = (200 \<le> status r \<and> status r \<le> 299)"

datatype 'b outcome = Responded "'b response" | Rejected thrown

text \<open>
  The observable effects of a run: how many times \<^verbatim>\<open>fetch\<close> was called and the
  delays slept, in order, in milliseconds. The network is the outcome of the n-th call
  to \<^verbatim>\<open>fetch\<close> (counted from 0) for a URL.
\<close>

record world =
  calls :: nat
  waited :: "nat list"

definition world0 :: world where
  "world0 = \<lparr>calls = 0, waited = []\<rparr>"

definition delay :: "nat \<Rightarrow> world \<Rightarrow> world" where
  "delay ms w = w\<lparr>waited := waited w @ [ms]\<rparr>"

definition waitTime :: "nat \<Rightarrow> nat" where
  "waitTime i = min (1000 * 2 ^ i) 30000"

definition http_error :: "'b response \<Rightarrow> thrown" where
  "http_error r =
     ErrorObj (''HTTP error! status: '' @ show_nat (status r) @ '' - '' @ statusText r)"

definition as_Error :: "thrown \<Rightarrow> thrown" where
  "as_Error e = (case e of NonError \<Rightarrow> ErrorObj ''Network request failed'' | _ \<Rightarrow> e)"

text \<open>
  The loop of \<^verbatim>\<open>fetchWithRetry\<close> from index \<open>i\<close>. A 429 sleeps and continues;
  any other non-ok status throws inside the \<^verbatim>\<open>try\<close> and so reaches the same
  \<^verbatim>\<open>catch\<close> as a rejected \<^verbatim>\<open>fetch\<close>, which rethrows on the last index and
  sleeps otherwise. After the loop the last recorded error, or the generic one, is thrown.
  The attempt budget is a count and so a natural number; the default of the source is 3.
\<close>

function fetch_loop ::
  "(nat \<Rightarrow> 'b outcome) \<Rightarrow> nat \<Rightarrow> nat \<Rightarrow> thrown option \<Rightarrow> world \<Rightarrow> (thrown + 'b response) \<times> world"
where
  "fetch_loop net attempts i lastError w =
     (if i < attempts then
        (let w1 = w\<lparr>calls := calls w + 1\<rparr>;
             caught = (\<lambda>e.
               let lastError' = as_Error e
               in if i = attempts - 1 then (Inl lastError', w1)
                  else fetch_loop net attempts (i + 1) (Some lastError') (delay (waitTime i) w1))
         in case net (calls w) of
              Responded r \<Rightarrow>
                if status r = 429 then
                  fetch_loop net attempts (i + 1) lastError (delay (waitTime i) w1)
                else if \<not> ok r then caught (http_error r)
                else (Inr r, w1)
            | Rejected e \<Rightarrow> caught e)
      else
        (Inl (case lastError of Some e \<Rightarrow> e | None \<Rightarrow> ErrorObj ''Maximum retry attempts reached''), w))"
  by pat_completeness auto
termination
  by (relation "measure (\<lambda>(net, attempts, i, lastError, w). attempts - i)") auto

definition fetchWithRetry ::
  "(nat \<Rightarrow> 'b outcome) \<Rightarrow> nat \<Rightarrow> (thrown + 'b response) \<times> world" where
  "fetchWithRetry net attempts = fetch_loop net attempts 0 None world0"

text \<open>A scripted network: the listed outcomes in order, then \<open>d\<close> for every later call.\<close>

definition script :: "'b outcome list \<Rightarrow> 'b outcome \<Rightarrow> nat \<Rightarrow> 'b outcome" where
  "script xs d n = (if n < length xs then xs ! n else d)"

text \<open>
  A host that answers the listed outcomes, in order, to the calls for one URL and
  rejects every other call.
\<close>

definition serve :: "string \<Rightarrow> 'b outcome list \<Rightarrow> string \<Rightarrow> nat \<Rightarrow> 'b outcome" where
  "serve u xs v = (if v = u then script xs (Rejected NonError) else script [] (Rejected NonError))"

text \<open>Outcomes that make an attempt fail, and the rate-limited ones among them.\<close>

definition is_failure :: "'b outcome \<Rightarrow> bool" where
  "is_failure x = (case x of Responded r \<Rightarrow> \<not> ok r | Rejected e \<Rightarrow> True)"


section \<open>Market data client\<close>

text \<open>
  \<^verbatim>\<open>CryptoPrice\<close> is \<^verbatim>\<open>{ [key: string]: { usd: number } }\<close>: a dictionary from asset
  key to a quote. A key may be missing (a \<^verbatim>\<open>null\<close> entry reads the same through
  \<^verbatim>\<open>?.\<close>), and so may the \<^verbatim>\<open>usd\<close> leaf.
\<close>

record quote =
  usd :: jsval

type_synonym CryptoPrice = "string \<rightharpoonup> quote"

definition price_url :: "string \<Rightarrow> string" where
  "price_url cryptoId =
     ''https://api.coingecko.com/api/v3/simple/price?ids='' @ cryptoId @ ''&vs_currencies=usd''"

text \<open>
  The part of \<^verbatim>\<open>getCryptoPrice\<close> after the body is parsed:
  \<^verbatim>\<open>if (!data[cryptoId]?.usd) throw ...; return data[cryptoId].usd\<close>.
\<close>

definition getCryptoPrice_read :: "string \<Rightarrow> CryptoPrice \<Rightarrow> thrown + jsval" where
  "getCryptoPrice_read cryptoId data =
     (let v = (case data cryptoId of None \<Rightarrow> Undefined | Some q \<Rightarrow> usd q)
      in if \<not> truthy v then Inl (ErrorObj ''Invalid price data received'')
         else (case data cryptoId of None \<Rightarrow> Inl TypeError | Some q \<Rightarrow> Inr (usd q)))"

definition getCryptoPrice ::
  "(string \<Rightarrow> nat \<Rightarrow> CryptoPrice outcome) \<Rightarrow> string \<Rightarrow> (thrown + jsval) \<times> world" where
  "getCryptoPrice net cryptoId =
     (case fetchWithRetry (net (price_url cryptoId)) 3 of
        (Inl e, w) \<Rightarrow> (Inl e, w)
      | (Inr response, w) \<Rightarrow>
          (case json response of
             Inl e \<Rightarrow> (Inl e, w)
           | Inr data \<Rightarrow> (getCryptoPrice_read cryptoId data, w)))"

record MarketData =
  price_change_percentage_24h :: jsval
  price_change_percentage_7d :: jsval
  total_volume :: jsval
  market_cap :: jsval
  current_price :: quote

text \<open>
  \<^verbatim>\<open>CryptoDetails\<close>, with the fields the news generator reads; \<open>homepage\<close> is
  \<^verbatim>\<open>links.homepage\<close>.
\<close>

record CryptoDetails =
  name :: string
  market_data :: MarketData
  last_updated :: string
  homepage :: "string list"

record NewsItem =
  title :: string
  url :: "string option"
  published_at :: string
  source :: string
  description :: string

section \<open>Synthetic news generator\<close>

text \<open>\<^verbatim>\<open>data.links.homepage[0]\<close>: \<^verbatim>\<open>undefined\<close> when the list is empty.\<close>

definition homepage0 :: "CryptoDetails \<Rightarrow> string option" where
  "homepage0 data = (case homepage data of [] \<Rightarrow> None | u # _ \<Rightarrow> Some u)"

text \<open>
  The four object literals pushed by \<^verbatim>\<open>getCryptoNews\<close>. The first reads
  \<^verbatim>\<open>current_price.usd.toFixed(2)\<close>, a method call that throws a \<^verbatim>\<open>TypeError\<close>
  when the leaf is no number.
\<close>

definition price_news :: "CryptoDetails \<Rightarrow> real \<Rightarrow> thrown + NewsItem" where
  "price_news data priceChange =
     (case usd (current_price (market_data data)) of
        Num cp \<Rightarrow>
          Inr \<lparr>title = name data @ '' '' @ (if priceChange \<ge> 0 then ''gains'' else ''drops'') @ '' ''
                   @ toFixed 2 (js_abs (Fin priceChange)) @ ''% in 24h'',
               url = homepage0 data,
               published_at = last_updated data,
               source = ''Market Data'',
               description = ''The price of '' @ name data @ '' has ''
                   @ (if priceChange \<ge> 0 then ''increased'' else ''decreased'') @ '' to $''
                   @ toFixed 2 (Fin cp)\<rparr>
      | _ \<Rightarrow> Inl TypeError)"

definition weekly_news :: "CryptoDetails \<Rightarrow> real \<Rightarrow> NewsItem" where
  "weekly_news data weeklyChange =
     \<lparr>title = name data @ '' '' @ (if weeklyChange \<ge> 0 then ''rises'' else ''falls'') @ '' ''
          @ toFixed 2 (js_abs (Fin weeklyChange)) @ ''% this week'',
      url = homepage0 data,
      published_at = last_updated data,
      source = ''Market Data'',
      description = ''Weekly performance shows a ''
          @ (if weeklyChange \<ge> 0 then ''positive'' else ''negative'') @ '' trend in ''
          @ name data @ '' price''\<rparr>"

definition volume_news :: "CryptoDetails \<Rightarrow> NewsItem" where
  "volume_news data =
     \<lparr>title = name data @ '' records $''
          @ toFixed 2 (js_div (ToNumber (total_volume (market_data data))) (Fin 1000000))
          @ ''M in daily trading'',
      url = homepage0 data,
      published_at = last_updated data,
      source = ''Market Data'',
      description = ''24-hour trading volume reaches significant levels as market activity continues''\<rparr>"

definition cap_news :: "CryptoDetails \<Rightarrow> NewsItem" where
  "cap_news data =
     \<lparr>title = name data @ '' market cap at $''
          @ toFixed 2 (js_div (ToNumber (market_cap (market_data data))) (Fin 1000000000))
          @ ''B'',
      url = homepage0 data,
      published_at = last_updated data,
      source = ''Market Data'',
      description = ''Current market valuation reflects '' @ name data
          @ [CHR 0x27] @ ''s position in the crypto market''\<rparr>"

text \<open>
  The part of \<^verbatim>\<open>getCryptoNews\<close> after the body is parsed: four guarded pushes onto
  \<^verbatim>\<open>news\<close>, in this order. The two percentage guards are \<^verbatim>\<open>typeof ... === 'number'\<close>;
  the volume and market-cap guards are truthiness tests.
\<close>

definition getCryptoNews_items :: "CryptoDetails \<Rightarrow> thrown + NewsItem list" where
  "getCryptoNews_items data =
     (let md = market_data data;
          news = []
      in case (case price_change_percentage_24h md of
                 Num priceChange \<Rightarrow>
                   (case price_news data priceChange of
                      Inl e \<Rightarrow> Inl e
                    | Inr item \<Rightarrow> Inr (news @ [item]))
               | _ \<Rightarrow> Inr news) of
           Inl e \<Rightarrow> Inl e
         | Inr news \<Rightarrow>
             (let news = (case price_change_percentage_7d md of
                            Num weeklyChange \<Rightarrow> news @ [weekly_news data weeklyChange]
                          | _ \<Rightarrow> news);
                  news = (if truthy (total_volume md) then news @ [volume_news data] else news);
                  news = (if truthy (market_cap md) then news @ [cap_news data] else news)
              in Inr news))"

definition details_url :: "string \<Rightarrow> string" where
  "details_url cryptoId =
     ''https://api.coingecko.com/api/v3/coins/'' @ cryptoId
       @ ''?localization=false&tickers=false&market_data=true&community_data=false&developer_data=false&sparkline=false''"

definition getCryptoNews ::
  "(string \<Rightarrow> nat \<Rightarrow> CryptoDetails outcome) \<Rightarrow> string \<Rightarrow> (thrown + NewsItem list) \<times> world" where
  "getCryptoNews net cryptoId =
     (case fetchWithRetry (net (details_url cryptoId)) 3 of
        (Inl e, w) \<Rightarrow> (Inl e, w)
      | (Inr response, w) \<Rightarrow>
          (case json response of
             Inl e \<Rightarrow> (Inl e, w)
           | Inr data \<Rightarrow> (getCryptoNews_items data, w)))"

section \<open>Derived metrics engine\<close>

subsection \<open>Risk score\<close>

datatype impact = Positive | Negative | Neutral

text \<open>
  An entry of the local \<^verbatim>\<open>factors\<close> array (with its \<^verbatim>\<open>score\<close>), and an entry of
  the returned array (without it). Comparisons and arithmetic coerce their operands
  with \<^verbatim>\<open>ToNumber\<close>.
\<close>

record scored_factor =
  factor :: string
  factor_impact :: impact
  factor_description :: string
  factor_score :: real

record risk_factor =
  risk_name :: string
  risk_impact :: impact
  risk_description :: string

record risk_assessment =
  score :: real
  factors :: "risk_factor list"

definition risk_factors :: "MarketData \<Rightarrow> scored_factor list" where
  "risk_factors marketData =
     (let change24h = ToNumber (price_change_percentage_24h marketData);
          change7d = ToNumber (price_change_percentage_7d marketData);
          cap = ToNumber (market_cap marketData);
          volume = ToNumber (total_volume marketData)
      in [\<lparr>factor = ''24h Price Change'',
            factor_impact = (if js_gt change24h (Fin 0) then Positive else Negative),
            factor_description = toFixed 2 (js_abs change24h) @ ''% ''
               @ (if js_gt change24h (Fin 0) then ''increase'' else ''decrease'')
               @ '' in the last 24 hours'',
            factor_score = (if js_gt (js_abs change24h) (Fin 10) then - 10 else 0)\<rparr>,
          \<lparr>factor = ''Weekly Trend'',
            factor_impact = (if js_gt change7d (Fin 0) then Positive else Negative),
            factor_description = toFixed 2 (js_abs change7d) @ ''% ''
               @ (if js_gt change7d (Fin 0) then ''gain'' else ''loss'')
               @ '' over the past week'',
            factor_score = (if js_gt change7d (Fin 0) then 5 else - 5)\<rparr>,
          \<lparr>factor = ''Market Cap'',
            factor_impact = (if js_gt cap (Fin 1000000000) then Positive else Neutral),
            factor_description = ''Market cap of $''
               @ toFixed 2 (js_div cap (Fin 1000000000)) @ ''B'',
            factor_score = (if js_gt cap (Fin 1000000000) then 10 else 0)\<rparr>,
          \<lparr>factor = ''Trading Volume'',
            factor_impact = (if js_gt volume (js_mul cap (Fin (1 / 10))) then Positive else Neutral),
            factor_description = ''Daily trading volume of $''
               @ toFixed 2 (js_div volume (Fin 1000000)) @ ''M'',
            factor_score = (if js_gt volume (js_mul cap (Fin (1 / 10))) then 5 else 0)\<rparr>])"

definition calculateRiskScore :: "MarketData \<Rightarrow> risk_assessment" where
  "calculateRiskScore marketData =
     (let fs = risk_factors marketData;
          baseScore = 70;
          totalScore = foldl (\<lambda>acc f. acc + factor_score f) baseScore fs;
          normalizedScore = max 0 (min 100 totalScore)
      in \<lparr>score = normalizedScore,
          factors = map (\<lambda>f. \<lparr>risk_name = factor f, risk_impact = factor_impact f,
                                risk_description = factor_description f\<rparr>) fs\<rparr>)"

subsection \<open>Portfolio valuation\<close>

text \<open>
  A position as the tracker holds it, and the price map of the price query: \<open>None\<close>
  while the query has no data, otherwise a dictionary in which an asset whose fetch
  failed has no entry.
\<close>

record PortfolioItem =
  item_id :: string
  cryptoId :: string
  symbol :: string
  amount :: real
  initialInvestment :: real
  purchaseDate :: string

type_synonym prices = "(string \<rightharpoonup> real) option"

text \<open>\<^verbatim>\<open>prices?.[item.cryptoId] ?? 0\<close>\<close>

definition currentPrice :: "prices \<Rightarrow> PortfolioItem \<Rightarrow> real" where
  "currentPrice ps item =
     (case ps of
        None \<Rightarrow> 0
      | Some m \<Rightarrow> (case m (cryptoId item) of None \<Rightarrow> 0 | Some p \<Rightarrow> p))"

definition totalValue :: "prices \<Rightarrow> PortfolioItem list \<Rightarrow> real" where
  "totalValue ps portfolio =
     foldl (\<lambda>sum item. sum + currentPrice ps item * amount item) 0 portfolio"

definition totalInvestment :: "PortfolioItem list \<Rightarrow> real" where
  "totalInvestment portfolio = foldl (\<lambda>sum item. sum + initialInvestment item) 0 portfolio"

definition totalProfit :: "prices \<Rightarrow> PortfolioItem list \<Rightarrow> real" where
  "totalProfit ps portfolio = totalValue ps portfolio - totalInvestment portfolio"

text \<open>The division is reached only under the guard, so its denominator is positive.\<close>

definition profitPercentage :: "prices \<Rightarrow> PortfolioItem list \<Rightarrow> real" where
  "profitPercentage ps portfolio =
     (if totalInvestment portfolio > 0
      then ((totalValue ps portfolio - totalInvestment portfolio) / totalInvestment portfolio) * 100
      else 0)"

text \<open>
  The constants of one table row. Both divisions are unguarded in the source, so they
  are JavaScript divisions.
\<close>

definition row_purchasePrice :: "PortfolioItem \<Rightarrow> jsnum" where
  "row_purchasePrice item = js_div (Fin (initialInvestment item)) (Fin (amount item))"

definition row_currentValue :: "prices \<Rightarrow> PortfolioItem \<Rightarrow> real" where
  "row_currentValue ps item = currentPrice ps item * amount item"

definition row_profit :: "prices \<Rightarrow> PortfolioItem \<Rightarrow> real" where
  "row_profit ps item = row_currentValue ps item - initialInvestment item"

definition row_profitPercentage :: "prices \<Rightarrow> PortfolioItem \<Rightarrow> jsnum" where
  "row_profitPercentage ps item =
     js_mul (js_div (Fin (row_profit ps item)) (Fin (initialInvestment item))) (Fin 100)"

section \<open>Add-investment form validation\<close>

text \<open>
  \<^verbatim>\<open>addInvestmentSchema\<close>. The two numeric fields arrive as strings and are read
  with \<^verbatim>\<open>Number(val)\<close>; the form below carries that reading (\<^verbatim>\<open>Number("0")\<close> is
  \<open>Fin 0\<close>, \<^verbatim>\<open>Number("abc")\<close> is \<open>NaN\<close>). An error thrown inside a transform leaves
  the parse as that error; a failed \<^verbatim>\<open>min(1)\<close> is reported as an issue.
\<close>

record investment_form =
  form_cryptoId :: string
  form_symbol :: string
  form_amount :: jsnum
  form_initialInvestment :: jsnum

record AddInvestmentInput =
  input_cryptoId :: string
  input_symbol :: string
  input_amount :: jsnum
  input_initialInvestment :: jsnum

datatype parse_failure = Thrown string | Issues "string list"

definition amount_transform :: "jsnum \<Rightarrow> string + jsnum" where
  "amount_transform num =
     (if isNaN num then Inl ''Invalid amount''
      else if js_lt num (Fin 0) then Inl ''Amount must be positive''
      else Inr num)"

definition initialInvestment_transform :: "jsnum \<Rightarrow> string + jsnum" where
  "initialInvestment_transform num =
     (if isNaN num then Inl ''Invalid investment amount''
      else if js_lt num (Fin 0) then Inl ''Investment must be positive''
      else Inr num)"

definition addInvestmentSchema :: "investment_form \<Rightarrow> parse_failure + AddInvestmentInput" where
  "addInvestmentSchema form =
     (let issues =
            (if 1 \<le> length (form_cryptoId form) then [] else [''Cryptocurrency is required''])
          @ (if 1 \<le> length (form_symbol form) then [] else [''Symbol is required''])
      in case amount_transform (form_amount form) of
           Inl msg \<Rightarrow> Inl (Thrown msg)
         | Inr a \<Rightarrow>
             (case initialInvestment_transform (form_initialInvestment form) of
                Inl msg \<Rightarrow> Inl (Thrown msg)
              | Inr c \<Rightarrow>
                  if issues = []
                  then Inr \<lparr>input_cryptoId = form_cryptoId form, input_symbol = form_symbol form,
                            input_amount = a, input_initialInvestment = c\<rparr>
                  else Inl (Issues issues)))"

section \<open>Properties of the backoff-retry fetcher\<close>

declare fetch_loop.simps [simp del]



lemma fetch_loop_ok:
  "i < attempts \<Longrightarrow> net (calls w) = Responded r \<Longrightarrow> ok r \<Longrightarrow>
   fetch_loop net attempts i lastError w = (Inr r, w\<lparr>calls := calls w + 1\<rparr>)"
  by (subst fetch_loop.simps) (auto simp: ok_def)

lemma fetch_loop_retry:
  "i + 1 < attempts \<Longrightarrow> is_failure (net (calls w)) \<Longrightarrow>
   \<exists>le. fetch_loop net attempts i lastError w =
     fetch_loop net attempts (i + 1) le (delay (waitTime i) (w\<lparr>calls := calls w + 1\<rparr>))"
  by (subst fetch_loop.simps) (auto simp: is_failure_def Let_def split: outcome.splits)

lemma calls_delay: "calls (delay ms w) = calls w"
  by (simp add: delay_def)

lemma fetch_loop_failures:
  "i + n < attempts \<Longrightarrow> \<forall>j<n. is_failure (net (calls w + j)) \<Longrightarrow>
   \<exists>le. fetch_loop net attempts i lastError w =
     fetch_loop net attempts (i + n) le
       (w\<lparr>calls := calls w + n, waited := waited w @ map waitTime [i..<i + n]\<rparr>)"
proof (induction n arbitrary: i lastError w)
  case 0
  then show ?case by auto
next
  case (Suc n)
  from Suc.prems have f0: "is_failure (net (calls w))" by (metis add.right_neutral zero_less_Suc)
  from Suc.prems have lt: "i + 1 < attempts" by simp
  let ?w1 = "delay (waitTime i) (w\<lparr>calls := calls w + 1\<rparr>)"
  obtain le1 where s1: "fetch_loop net attempts i lastError w = fetch_loop net attempts (i + 1) le1 ?w1"
    using fetch_loop_retry [where i = i and attempts = attempts and net = net and w = w and lastError = lastError] lt f0 by blast
  have rest: "\<forall>j<n. is_failure (net (calls ?w1 + j))"
    using Suc.prems(2) by (auto simp: calls_delay)
  have lt2: "(i + 1) + n < attempts" using Suc.prems(1) by simp
  obtain le2 where s2: "fetch_loop net attempts (i + 1) le1 ?w1 =
      fetch_loop net attempts (i + 1 + n) le2
        (?w1\<lparr>calls := calls ?w1 + n, waited := waited ?w1 @ map waitTime [i + 1..<i + 1 + n]\<rparr>)"
    using Suc.IH [where i = "i + 1" and w = ?w1 and lastError = le1] lt2 rest by blast
  have l: "[i..<i + Suc n] = i # [i + 1..<i + 1 + n]"
    by (simp add: upt_conv_Cons del: upt_Suc)
  have "?w1\<lparr>calls := calls ?w1 + n, waited := waited ?w1 @ map waitTime [i + 1..<i + 1 + n]\<rparr>
      = w\<lparr>calls := calls w + Suc n, waited := waited w @ map waitTime [i..<i + Suc n]\<rparr>"
    using l by (simp add: delay_def del: upt_Suc)
  with s1 s2 show ?case by (metis add_Suc_right Suc_eq_plus1 add_Suc)
qed

lemma k_failures_then_success:
  assumes "1 \<le> k" "k \<le> attempts"
    and "\<forall>j<k - 1. is_failure (net j)"
    and "net (k - 1) = Responded r" "ok r"
  shows "fetchWithRetry net attempts = (Inr r, \<lparr>calls = k, waited = map waitTime [0..<k - 1]\<rparr>)"
proof -
  have lt: "0 + (k - 1) < attempts" using assms by simp
  have fs: "\<forall>j<k - 1. is_failure (net (calls world0 + j))" using assms by (simp add: world0_def)
  obtain le where s: "fetch_loop net attempts 0 None world0 =
      fetch_loop net attempts (0 + (k - 1)) le
        (world0\<lparr>calls := calls world0 + (k - 1), waited := waited world0 @ map waitTime [0..<0 + (k - 1)]\<rparr>)"
    using fetch_loop_failures [where i = 0 and n = "k - 1" and attempts = attempts and net = net and w = world0 and lastError = None] lt fs by blast
  show ?thesis
    unfolding fetchWithRetry_def s
    using assms lt by (subst fetch_loop_ok [where r = r]) (auto simp: world0_def)
qed






text \<open>
  C2, as amended. For every \<open>k \<ge> 1\<close> within the attempt budget, a run that meets
  \<open>k - 1\<close> failing outcomes (a rejected fetch or a non-ok status, 429 included) and then
  an ok response returns that response after exactly \<open>k\<close> calls to fetch, and the
  delay slept before attempt \<open>i\<close>, for \<open>2 \<le> i \<le> k\<close> counted from 1, is
  \<open>min (1000 * 2 ^ (i - 2)) 30000\<close> milliseconds: the exponent is the index of the
  attempt that failed, counted from 0.
\<close>

theorem success_after_failures:
  assumes "1 \<le> k" and "k \<le> attempts"
    and "\<forall>j<k - 1. is_failure (net j)"
    and "net (k - 1) = Responded r" and "ok r"
  shows "fetchWithRetry net attempts =
           (Inr r, \<lparr>calls = k, waited = map (\<lambda>i. min (1000 * 2 ^ (i - 2)) 30000) [2..<k + 1]\<rparr>)"
proof -
  have "k - 1 + 2 = k + 1"
    using assms(1) by simp
  then have "[2..<k + 1] = map (\<lambda>i. i + 2) [0..<k - 1]"
    using map_add_upt [of 2 "k - 1"] by metis
  then have "map (\<lambda>i. min (1000 * 2 ^ (i - 2)) 30000) [2..<k + 1] = map waitTime [0..<k - 1]"
    by (simp add: waitTime_def comp_def)
  then show ?thesis
    using k_failures_then_success [OF assms] by simp
qed

theorem success_after_failures_witness:
  "fetchWithRetry
     (script [Rejected (ErrorObj ''Failed to fetch''),
              Responded (Response 503 ''Service Unavailable'' (Inl NonError)),
              Responded (Response 200 ''OK'' (Inr ()))] (Rejected NonError)) 3 =
   (Inr (Response 200 ''OK'' (Inr ())), \<lparr>calls = 3, waited = [1000, 2000]\<rparr>)"
proof -
  let ?net = "script [Rejected (ErrorObj ''Failed to fetch''),
              Responded (Response 503 ''Service Unavailable'' (Inl NonError)),
              Responded (Response 200 ''OK'' (Inr ()))] (Rejected NonError)"
  have f: "\<forall>j<3 - 1. is_failure (?net j)"
    by (simp add: script_def is_failure_def ok_def less_Suc_eq numeral_2_eq_2)
  have s: "?net (3 - 1) = Responded (Response 200 ''OK'' (Inr ()))"
    by (simp add: script_def)
  have o: "ok (Response 200 ''OK'' (Inr ()))"
    by (simp add: ok_def)
  have l: "map (\<lambda>i. min (1000 * 2 ^ (i - 2)) 30000) [2..<3 + 1] = [1000, 2000::nat]"
    by (simp add: upt_conv_Cons)
  show ?thesis
    using success_after_failures [of 3 3 ?net, OF _ _ f s o] l by simp
qed


text \<open>
  One failure and then a success: the only delay, the one before attempt 2, is 1000
  milliseconds and not \<open>min (1000 * 2 ^ (2 - 1)) 30000\<close>.
\<close>

theorem delay_before_second_attempt_counterexample:
  "fst (fetchWithRetry
     (script [Rejected (ErrorObj ''Failed to fetch''),
              Responded (Response 200 ''OK'' (Inr ()))] (Rejected NonError)) 3)
     = Inr (Response 200 ''OK'' (Inr ()))
   \<and> calls (snd (fetchWithRetry
     (script [Rejected (ErrorObj ''Failed to fetch''),
              Responded (Response 200 ''OK'' (Inr ()))] (Rejected NonError)) 3)) = 2
   \<and> waited (snd (fetchWithRetry
     (script [Rejected (ErrorObj ''Failed to fetch''),
              Responded (Response 200 ''OK'' (Inr ()))] (Rejected NonError)) 3))
     \<noteq> [min (1000 * 2 ^ (2 - 1)) 30000]"
proof -
  let ?net = "script [Rejected (ErrorObj ''Failed to fetch''),
              Responded (Response 200 ''OK'' (Inr ()))] (Rejected NonError)"
  have f: "\<forall>j<2 - 1. is_failure (?net j)"
    by (simp add: script_def is_failure_def)
  have s: "?net (2 - 1) = Responded (Response 200 ''OK'' (Inr ()))"
    by (simp add: script_def)
  have o: "ok (Response 200 ''OK'' (Inr ()))"
    by (simp add: ok_def)
  have "fetchWithRetry ?net 3 = (Inr (Response 200 ''OK'' (Inr ())), \<lparr>calls = 2, waited = map waitTime [0..<2 - 1]\<rparr>)"
    using k_failures_then_success [of 2 3 ?net, OF _ _ f s o] by simp
  then show ?thesis by (simp add: waitTime_def)
qed


section \<open>Properties of the market data client\<close>

lemma getCryptoPrice_fetched:
  "fetchWithRetry (net (price_url c)) 3 = (Inr response, w) \<Longrightarrow> json response = Inr data \<Longrightarrow>
   getCryptoPrice net c = (getCryptoPrice_read c data, w)"
  by (simp add: getCryptoPrice_def)

lemma fetchWithRetry_first_ok:
  "0 < attempts \<Longrightarrow> net 0 = Responded r \<Longrightarrow> ok r \<Longrightarrow>
   fetchWithRetry net attempts = (Inr r, \<lparr>calls = 1, waited = []\<rparr>)"
  unfolding fetchWithRetry_def
  by (subst fetch_loop_ok [where r = r]) (simp_all add: world0_def)

lemma serve_hit: "serve u (x # xs) u 0 = x"
  by (simp add: serve_def script_def)

text \<open>
  C3, as amended. Once the price endpoint has answered with a parsed body,
  \<^verbatim>\<open>getCryptoPrice\<close> fails with "Invalid price data received" exactly when the body
  has no quote under the requested asset key, or the quote has no \<^verbatim>\<open>usd\<close> leaf, or
  that leaf is \<^verbatim>\<open>null\<close> or the number 0 (the guard is a truthiness test); every
  non-zero numeric price is returned as it is.
\<close>

theorem price_rejected_iff_falsy:
  "fetchWithRetry (net (price_url c)) 3 = (Inr response, w) \<and> json response = Inr data \<longrightarrow>
   fst (getCryptoPrice net c) =
     (case data c of
        None \<Rightarrow> Inl (ErrorObj ''Invalid price data received'')
      | Some q \<Rightarrow>
          (case usd q of
             Num p \<Rightarrow> if p = 0 then Inl (ErrorObj ''Invalid price data received'') else Inr (Num p)
           | _ \<Rightarrow> Inl (ErrorObj ''Invalid price data received'')))"
  by (auto simp: getCryptoPrice_fetched getCryptoPrice_read_def split: option.splits jsval.splits)

theorem price_rejected_iff_falsy_witness:
  "fst (getCryptoPrice
     (serve (price_url ''bitcoin'')
        [Responded (Response 200 ''OK'' (Inr [''bitcoin'' \<mapsto> \<lparr>usd = Num 64000\<rparr>]))])
     ''bitcoin'') = Inr (Num 64000)"
proof -
  let ?data = "[''bitcoin'' \<mapsto> \<lparr>usd = Num 64000\<rparr>]"
  let ?r = "Response 200 ''OK'' (Inr ?data)"
  let ?net = "serve (price_url ''bitcoin'') [Responded ?r]"
  have "fetchWithRetry (?net (price_url ''bitcoin'')) 3 = (Inr ?r, \<lparr>calls = 1, waited = []\<rparr>)"
    by (rule fetchWithRetry_first_ok) (simp_all add: serve_hit ok_def)
  then show ?thesis
    using price_rejected_iff_falsy [of ?net "''bitcoin''" ?r "\<lparr>calls = 1, waited = []\<rparr>" ?data]
    by simp
qed

text \<open>
  A body that carries the numeric price 0 under the requested key is rejected, not
  returned.
\<close>

theorem zero_price_rejected_counterexample:
  "fst (getCryptoPrice
     (serve (price_url ''bitcoin'')
        [Responded (Response 200 ''OK'' (Inr [''bitcoin'' \<mapsto> \<lparr>usd = Num 0\<rparr>]))])
     ''bitcoin'') = Inl (ErrorObj ''Invalid price data received'')"
proof -
  let ?data = "[''bitcoin'' \<mapsto> \<lparr>usd = Num 0\<rparr>]"
  let ?r = "Response 200 ''OK'' (Inr ?data)"
  let ?net = "serve (price_url ''bitcoin'') [Responded ?r]"
  have "fetchWithRetry (?net (price_url ''bitcoin'')) 3 = (Inr ?r, \<lparr>calls = 1, waited = []\<rparr>)"
    by (rule fetchWithRetry_first_ok) (simp_all add: serve_hit ok_def)
  then have "getCryptoPrice ?net ''bitcoin'' = (getCryptoPrice_read ''bitcoin'' ?data, \<lparr>calls = 1, waited = []\<rparr>)"
    by (rule getCryptoPrice_fetched) simp
  then show ?thesis
    by (simp add: getCryptoPrice_read_def)
qed


section \<open>Properties of the synthetic news generator\<close>

subsection \<open>Numbers printed with two decimals\<close>

lemma show_nat_1200: "show_nat 1200 = ''1200''"
  by (simp add: digit_char_def)

lemma show_nat_300: "show_nat 300 = ''300''"
  by (simp add: digit_char_def)

lemma show_nat_30000: "show_nat 30000 = ''30000''"
  by (simp add: digit_char_def)

lemma show_nat_200: "show_nat 200 = ''200''"
  by (simp add: digit_char_def)

lemma show_nat_6400000: "show_nat 6400000 = ''6400000''"
  by (simp add: digit_char_def)

declare show_nat.simps [simp del]

lemma toFixed_2_digits:
  "0 \<le> r \<Longrightarrow> nat \<lfloor>r * 100 + 1 / 2\<rfloor> = n \<Longrightarrow> show_nat n = ds \<Longrightarrow> 2 < length ds \<Longrightarrow>
   toFixed 2 (Fin r) = take (length ds - 2) ds @ ''.'' @ drop (length ds - 2) ds"
  by (simp add: toFixed_def Let_def)

lemma toFixed_12: "toFixed 2 (Fin 12) = ''12.00''"
  using toFixed_2_digits [of 12 1200 "''1200''"] by (simp add: show_nat_1200)

lemma toFixed_3: "toFixed 2 (Fin 3) = ''3.00''"
  using toFixed_2_digits [of 3 300 "''300''"] by (simp add: show_nat_300)

lemma toFixed_300: "toFixed 2 (Fin 300) = ''300.00''"
  using toFixed_2_digits [of 300 30000 "''30000''"] by (simp add: show_nat_30000)

lemma toFixed_2: "toFixed 2 (Fin 2) = ''2.00''"
  using toFixed_2_digits [of 2 200 "''200''"] by (simp add: show_nat_200)

lemma toFixed_64000: "toFixed 2 (Fin 64000) = ''64000.00''"
  using toFixed_2_digits [of 64000 6400000 "''6400000''"] by (simp add: show_nat_6400000)

subsection \<open>The items and their headlines\<close>

lemma suffix_last: "suffix s t \<Longrightarrow> s \<noteq> [] \<Longrightarrow> last t = last s"
  by (auto simp: suffix_def)

lemma title_price_news:
  "price_news d x = Inr item \<Longrightarrow> \<exists>pre. title item = pre @ ''% in 24h''"
  by (auto simp: price_news_def split: jsval.splits)

lemma price_news_ok:
  "usd (current_price (market_data d)) = Num cp \<Longrightarrow> \<exists>item. price_news d x = Inr item"
  by (simp add: price_news_def)

lemma title_weekly_news: "\<exists>pre. title (weekly_news d x) = pre @ ''% this week''"
  by (simp add: weekly_news_def)

lemma title_volume_news: "\<exists>pre. title (volume_news d) = pre @ ''M in daily trading''"
  by (simp add: volume_news_def)

lemma title_cap_news: "\<exists>pre. title (cap_news d) = pre @ ''B''"
  by (simp add: cap_news_def)


lemma not_suffix_by_last:
  "t \<noteq> [] \<Longrightarrow> s \<noteq> [] \<Longrightarrow> last t \<noteq> last s \<Longrightarrow> \<not> suffix t (pre @ s)"
  using suffix_last [of t "pre @ s"] by auto

lemma suffix_own: "suffix s (pre @ s)"
  by (rule suffixI) simp

lemma typeof_number_iff: "typeof_number v \<longleftrightarrow> (\<exists>r. v = Num r)"
  by (cases v) simp_all

lemma truthy_iff: "truthy v \<longleftrightarrow> (\<exists>r. v = Num r \<and> r \<noteq> 0)"
  by (cases v) simp_all

lemma news_shape:
  assumes "usd (current_price (market_data d)) = Num cp"
  shows "\<exists>a b. getCryptoNews_items d =
           Inr ((if typeof_number (price_change_percentage_24h (market_data d)) then [a] else [])
              @ (if typeof_number (price_change_percentage_7d (market_data d)) then [b] else [])
              @ (if truthy (total_volume (market_data d)) then [volume_news d] else [])
              @ (if truthy (market_cap (market_data d)) then [cap_news d] else []))
         \<and> (\<exists>pre. title a = pre @ ''% in 24h'') \<and> (\<exists>pre. title b = pre @ ''% this week'')"
proof -
  obtain a where a: "\<And>x. price_change_percentage_24h (market_data d) = Num x \<Longrightarrow> price_news d x = Inr a"
    "\<exists>pre. title a = pre @ ''% in 24h''"
  proof (cases "price_change_percentage_24h (market_data d)")
    case (Num x)
    then obtain item where "price_news d x = Inr item" using price_news_ok [OF assms] by blast
    then show ?thesis using that Num title_price_news by fastforce
  next
    case Undefined
    obtain item where "price_news d 0 = Inr item" using price_news_ok [OF assms] by blast
    then show ?thesis using that Undefined title_price_news by fastforce
  next
    case Null
    obtain item where "price_news d 0 = Inr item" using price_news_ok [OF assms] by blast
    then show ?thesis using that Null title_price_news by fastforce
  qed
  define b where "b = weekly_news d (case price_change_percentage_7d (market_data d) of Num x \<Rightarrow> x | _ \<Rightarrow> 0)"
  have b: "\<exists>pre. title b = pre @ ''% this week''" unfolding b_def by (rule title_weekly_news)
  have "getCryptoNews_items d =
           Inr ((if typeof_number (price_change_percentage_24h (market_data d)) then [a] else [])
              @ (if typeof_number (price_change_percentage_7d (market_data d)) then [b] else [])
              @ (if truthy (total_volume (market_data d)) then [volume_news d] else [])
              @ (if truthy (market_cap (market_data d)) then [cap_news d] else []))"
    using a(1) by (cases "price_change_percentage_24h (market_data d)";
        cases "price_change_percentage_7d (market_data d)")
      (simp_all add: getCryptoNews_items_def b_def)
  with a(2) b show ?thesis by blast
qed

text \<open>
  C9, as amended. For every snapshot whose current price is a number, the generator
  returns at most four items, one for each guard that holds. The headline ending in
  "% in 24h" is present exactly when the 24h change is a number and the one ending in
  "% this week" exactly when the 7d change is a number; the headline ending in
  "M in daily trading" is present exactly when the volume is a non-zero number and the
  market-cap headline (ending in "B") exactly when the market cap is a non-zero number.
  A volume or market cap of 0 therefore yields no item, as a missing or null field does.
\<close>

theorem news_items_follow_guards:
  assumes "typeof_number (usd (current_price (market_data d)))"
  shows "\<exists>news. getCryptoNews_items d = Inr news
     \<and> length news \<le> 4
     \<and> length news =
          (if typeof_number (price_change_percentage_24h (market_data d)) then 1 else 0)
        + (if typeof_number (price_change_percentage_7d (market_data d)) then 1 else 0)
        + (if truthy (total_volume (market_data d)) then 1 else 0)
        + (if truthy (market_cap (market_data d)) then 1 else 0)
     \<and> ((\<exists>x \<in> set news. suffix ''% in 24h'' (title x))
          \<longleftrightarrow> (\<exists>r. price_change_percentage_24h (market_data d) = Num r))
     \<and> ((\<exists>x \<in> set news. suffix ''% this week'' (title x))
          \<longleftrightarrow> (\<exists>r. price_change_percentage_7d (market_data d) = Num r))
     \<and> ((\<exists>x \<in> set news. suffix ''M in daily trading'' (title x))
          \<longleftrightarrow> (\<exists>r. total_volume (market_data d) = Num r \<and> r \<noteq> 0))
     \<and> ((\<exists>x \<in> set news. suffix ''B'' (title x))
          \<longleftrightarrow> (\<exists>r. market_cap (market_data d) = Num r \<and> r \<noteq> 0))"
proof -
  let ?g1 = "typeof_number (price_change_percentage_24h (market_data d))"
  let ?g2 = "typeof_number (price_change_percentage_7d (market_data d))"
  let ?g3 = "truthy (total_volume (market_data d))"
  let ?g4 = "truthy (market_cap (market_data d))"
  obtain cp where "usd (current_price (market_data d)) = Num cp"
    using assms by (auto simp: typeof_number_iff)
  from news_shape [OF this] obtain a b pa pb where
    shape: "getCryptoNews_items d =
      Inr ((if ?g1 then [a] else []) @ (if ?g2 then [b] else [])
         @ (if ?g3 then [volume_news d] else []) @ (if ?g4 then [cap_news d] else []))"
    and ta: "title a = pa @ ''% in 24h''" and tb: "title b = pb @ ''% this week''"
    by blast
  obtain pv pc where tv: "title (volume_news d) = pv @ ''M in daily trading''"
    and tc: "title (cap_news d) = pc @ ''B''"
    using title_volume_news title_cap_news by blast
  have a: "suffix ''% in 24h'' (title a)" "\<not> suffix ''% this week'' (title a)"
    "\<not> suffix ''M in daily trading'' (title a)" "\<not> suffix ''B'' (title a)"
    unfolding ta by (simp_all add: not_suffix_by_last suffix_own)
  have b: "\<not> suffix ''% in 24h'' (title b)" "suffix ''% this week'' (title b)"
    "\<not> suffix ''M in daily trading'' (title b)" "\<not> suffix ''B'' (title b)"
    unfolding tb by (simp_all add: not_suffix_by_last suffix_own)
  have v: "\<not> suffix ''% in 24h'' (title (volume_news d))" "\<not> suffix ''% this week'' (title (volume_news d))"
    "suffix ''M in daily trading'' (title (volume_news d))" "\<not> suffix ''B'' (title (volume_news d))"
    unfolding tv by (simp_all add: not_suffix_by_last suffix_own)
  have c: "\<not> suffix ''% in 24h'' (title (cap_news d))" "\<not> suffix ''% this week'' (title (cap_news d))"
    "\<not> suffix ''M in daily trading'' (title (cap_news d))" "suffix ''B'' (title (cap_news d))"
    unfolding tc by (simp_all add: not_suffix_by_last suffix_own)
  show ?thesis
    unfolding shape typeof_number_iff [symmetric] truthy_iff [symmetric]
    using a b v c by simp
qed


lemma eval_news_two:
  "getCryptoNews_items
       \<lparr>name = ''Bitcoin'',
        market_data = \<lparr>price_change_percentage_24h = Num 12, price_change_percentage_7d = Null,
          total_volume = Num 300000000, market_cap = Undefined,
          current_price = \<lparr>usd = Num 64000\<rparr>\<rparr>,
        last_updated = ''2024-01-01T00:00:00.000Z'', homepage = [''https://bitcoin.org'']\<rparr>
   = Inr [\<lparr>title = ''Bitcoin gains 12.00% in 24h'', url = Some ''https://bitcoin.org'',
           published_at = ''2024-01-01T00:00:00.000Z'', source = ''Market Data'',
           description = ''The price of Bitcoin has increased to $64000.00''\<rparr>,
          \<lparr>title = ''Bitcoin records $300.00M in daily trading'', url = Some ''https://bitcoin.org'',
           published_at = ''2024-01-01T00:00:00.000Z'', source = ''Market Data'',
           description = ''24-hour trading volume reaches significant levels as market activity continues''\<rparr>]"
  by (simp add: getCryptoNews_items_def price_news_def volume_news_def homepage0_def
      toFixed_12 toFixed_300 toFixed_64000)

theorem news_items_follow_guards_witness:
  "\<exists>news. getCryptoNews_items
       \<lparr>name = ''Bitcoin'',
        market_data = \<lparr>price_change_percentage_24h = Num 12, price_change_percentage_7d = Null,
          total_volume = Num 300000000, market_cap = Undefined,
          current_price = \<lparr>usd = Num 64000\<rparr>\<rparr>,
        last_updated = ''2024-01-01T00:00:00.000Z'', homepage = [''https://bitcoin.org'']\<rparr> = Inr news
     \<and> length news = 2
     \<and> (\<exists>x \<in> set news. suffix ''% in 24h'' (title x))
     \<and> (\<exists>x \<in> set news. suffix ''M in daily trading'' (title x))"
  using news_items_follow_guards
    [of "\<lparr>name = ''Bitcoin'',
        market_data = \<lparr>price_change_percentage_24h = Num 12, price_change_percentage_7d = Null,
          total_volume = Num 300000000, market_cap = Undefined,
          current_price = \<lparr>usd = Num 64000\<rparr>\<rparr>,
        last_updated = ''2024-01-01T00:00:00.000Z'', homepage = [''https://bitcoin.org'']\<rparr>"]
  unfolding eval_news_two by simp

text \<open>
  A snapshot whose volume is the well-formed number 0: three items, none for the volume.
\<close>

theorem zero_volume_no_item_counterexample:
  "getCryptoNews_items
       \<lparr>name = ''Bitcoin'',
        market_data = \<lparr>price_change_percentage_24h = Num 12, price_change_percentage_7d = Num (- 3),
          total_volume = Num 0, market_cap = Num 2000000000,
          current_price = \<lparr>usd = Num 64000\<rparr>\<rparr>,
        last_updated = ''2024-01-01T00:00:00.000Z'', homepage = [''https://bitcoin.org'']\<rparr>
   = Inr [\<lparr>title = ''Bitcoin gains 12.00% in 24h'', url = Some ''https://bitcoin.org'',
           published_at = ''2024-01-01T00:00:00.000Z'', source = ''Market Data'',
           description = ''The price of Bitcoin has increased to $64000.00''\<rparr>,
          \<lparr>title = ''Bitcoin falls 3.00% this week'', url = Some ''https://bitcoin.org'',
           published_at = ''2024-01-01T00:00:00.000Z'', source = ''Market Data'',
           description = ''Weekly performance shows a negative trend in Bitcoin price''\<rparr>,
          \<lparr>title = ''Bitcoin market cap at $2.00B'', url = Some ''https://bitcoin.org'',
           published_at = ''2024-01-01T00:00:00.000Z'', source = ''Market Data'',
           description = ''Current market valuation reflects Bitcoin'' @ [CHR 0x27] @ ''s position in the crypto market''\<rparr>]"
  by (simp add: getCryptoNews_items_def price_news_def weekly_news_def cap_news_def homepage0_def
      toFixed_12 toFixed_3 toFixed_2 toFixed_64000)


lemma news_all_four:
  assumes "price_change_percentage_24h (market_data d) = Num x"
    and "price_change_percentage_7d (market_data d) = Num y"
    and "truthy (total_volume (market_data d))" and "truthy (market_cap (market_data d))"
    and "usd (current_price (market_data d)) = Num cp"
  shows "\<exists>a. getCryptoNews_items d = Inr [a, weekly_news d y, volume_news d, cap_news d]
     \<and> title a = name d @ '' '' @ (if x \<ge> 0 then ''gains'' else ''drops'') @ '' ''
                   @ toFixed 2 (js_abs (Fin x)) @ ''% in 24h''"
  using assms by (simp add: getCryptoNews_items_def price_news_def)

text \<open>
  C8, as amended. For the snapshot with 24h change 12, 7d change -3, market cap 2e9 and
  volume 3e8 (any name, current price, timestamp and links) the generator returns
  exactly four items; the first headline is the name followed by "gains 12.00% in 24h"
  (a change of 12 is not negative, so the word is "gains"), the second is the name
  followed by "falls 3.00% this week".
\<close>

theorem scenario_news:
  "\<exists>a b c e. getCryptoNews_items
       \<lparr>name = n,
        market_data = \<lparr>price_change_percentage_24h = Num 12, price_change_percentage_7d = Num (- 3),
          total_volume = Num 300000000, market_cap = Num 2000000000,
          current_price = \<lparr>usd = Num cp\<rparr>\<rparr>,
        last_updated = t, homepage = hs\<rparr> = Inr [a, b, c, e]
     \<and> title a = n @ '' gains 12.00% in 24h''
     \<and> title b = n @ '' falls 3.00% this week''
     \<and> sublist ''gains 12.00%'' (title a)
     \<and> sublist ''falls 3.00%'' (title b)"
proof -
  let ?d = "\<lparr>name = n,
        market_data = \<lparr>price_change_percentage_24h = Num 12, price_change_percentage_7d = Num (- 3),
          total_volume = Num 300000000, market_cap = Num 2000000000,
          current_price = \<lparr>usd = Num cp\<rparr>\<rparr>,
        last_updated = t, homepage = hs\<rparr>"
  obtain a where items: "getCryptoNews_items ?d = Inr [a, weekly_news ?d (- 3), volume_news ?d, cap_news ?d]"
    and ta: "title a = name ?d @ '' '' @ (if (12::real) \<ge> 0 then ''gains'' else ''drops'') @ '' ''
                   @ toFixed 2 (js_abs (Fin 12)) @ ''% in 24h''"
    using news_all_four [of ?d 12 "- 3" cp] by auto
  have ta': "title a = n @ '' gains 12.00% in 24h''"
    using ta by (simp add: toFixed_12)
  have tb: "title (weekly_news ?d (- 3)) = n @ '' falls 3.00% this week''"
    by (simp add: weekly_news_def toFixed_3)
  have g: "sublist ''gains 12.00%'' (n @ '' gains 12.00% in 24h'')"
    using sublist_appendI [of "''gains 12.00%''" "n @ '' ''" "'' in 24h''"] by simp
  have f: "sublist ''falls 3.00%'' (n @ '' falls 3.00% this week'')"
    using sublist_appendI [of "''falls 3.00%''" "n @ '' ''" "'' this week''"] by simp
  show ?thesis
    using items ta' tb g f by (intro exI [of _ a] exI [of _ "weekly_news ?d (- 3)"]
        exI [of _ "volume_news ?d"] exI [of _ "cap_news ?d"]) simp
qed


lemma not_sublist_drops: "\<not> sublist ''drops 12.00%'' ''Bitcoin gains 12.00% in 24h''"
  by (simp add: sublist_Cons_right)

text \<open>
  For the asset named Bitcoin the four headlines are these, and the first one does not
  contain "drops 12.00%".
\<close>

theorem scenario_headline_counterexample:
  "getCryptoNews_items
       \<lparr>name = ''Bitcoin'',
        market_data = \<lparr>price_change_percentage_24h = Num 12, price_change_percentage_7d = Num (- 3),
          total_volume = Num 300000000, market_cap = Num 2000000000,
          current_price = \<lparr>usd = Num 64000\<rparr>\<rparr>,
        last_updated = ''2024-01-01T00:00:00.000Z'', homepage = [''https://bitcoin.org'']\<rparr>
   = Inr [\<lparr>title = ''Bitcoin gains 12.00% in 24h'', url = Some ''https://bitcoin.org'',
           published_at = ''2024-01-01T00:00:00.000Z'', source = ''Market Data'',
           description = ''The price of Bitcoin has increased to $64000.00''\<rparr>,
          \<lparr>title = ''Bitcoin falls 3.00% this week'', url = Some ''https://bitcoin.org'',
           published_at = ''2024-01-01T00:00:00.000Z'', source = ''Market Data'',
           description = ''Weekly performance shows a negative trend in Bitcoin price''\<rparr>,
          \<lparr>title = ''Bitcoin records $300.00M in daily trading'', url = Some ''https://bitcoin.org'',
           published_at = ''2024-01-01T00:00:00.000Z'', source = ''Market Data'',
           description = ''24-hour trading volume reaches significant levels as market activity continues''\<rparr>,
          \<lparr>title = ''Bitcoin market cap at $2.00B'', url = Some ''https://bitcoin.org'',
           published_at = ''2024-01-01T00:00:00.000Z'', source = ''Market Data'',
           description = ''Current market valuation reflects Bitcoin'' @ [CHR 0x27] @ ''s position in the crypto market''\<rparr>]
   \<and> \<not> sublist ''drops 12.00%'' ''Bitcoin gains 12.00% in 24h''"
  using not_sublist_drops
  by (simp add: getCryptoNews_items_def price_news_def weekly_news_def volume_news_def cap_news_def
      homepage0_def toFixed_12 toFixed_3 toFixed_300 toFixed_2 toFixed_64000)

section \<open>Properties of the risk score\<close>

text \<open>
  C6. Whatever the four market-data fields hold (any real number, a missing field or
  null), the score returned by \<^verbatim>\<open>calculateRiskScore\<close> lies between 0 and 100.
\<close>

theorem risk_score_in_range:
  "0 \<le> score (calculateRiskScore marketData) \<and> score (calculateRiskScore marketData) \<le> 100"
  by (simp add: calculateRiskScore_def Let_def)

text \<open>The clamp is never active: the four deltas keep the total between 55 and 90.\<close>

lemma risk_score_unclamped:
  "score (calculateRiskScore marketData) = 70 + sum_list (map factor_score (risk_factors marketData))
   \<and> 55 \<le> score (calculateRiskScore marketData) \<and> score (calculateRiskScore marketData) \<le> 90"
  by (simp add: calculateRiskScore_def risk_factors_def Let_def)

text \<open>
  C7. For the snapshot with 24h change 12, 7d change -3, market cap 2e9 and volume 3e8
  the four factor deltas are -10, -5, +10 and +5, and the returned score is
  \<open>max 0 (min 100 (70 - 10 - 5 + 10 + 5)) = 70\<close>.
\<close>

theorem scenario_risk_score:
  "map factor_score (risk_factors
      \<lparr>price_change_percentage_24h = Num 12, price_change_percentage_7d = Num (- 3),
       total_volume = Num 300000000, market_cap = Num 2000000000, current_price = cp\<rparr>)
     = [- 10, - 5, 10, 5]
   \<and> score (calculateRiskScore
      \<lparr>price_change_percentage_24h = Num 12, price_change_percentage_7d = Num (- 3),
       total_volume = Num 300000000, market_cap = Num 2000000000, current_price = cp\<rparr>)
     = max 0 (min 100 (70 - 10 - 5 + 10 + 5))
   \<and> score (calculateRiskScore
      \<lparr>price_change_percentage_24h = Num 12, price_change_percentage_7d = Num (- 3),
       total_volume = Num 300000000, market_cap = Num 2000000000, current_price = cp\<rparr>)
     = 70"
  by (simp add: calculateRiskScore_def risk_factors_def js_gt_def Let_def)


section \<open>Properties of the portfolio valuation\<close>

lemma foldl_plus_sum_list:
  "foldl (\<lambda>acc x. acc + f x) a xs = a + sum_list (map f xs)"
  for a :: real
  by (induction xs arbitrary: a) (simp_all add: add.assoc)

lemma totalValue_sum:
  "totalValue ps portfolio = (\<Sum>item\<leftarrow>portfolio. currentPrice ps item * amount item)"
  by (simp add: totalValue_def foldl_plus_sum_list)

lemma totalInvestment_sum:
  "totalInvestment portfolio = (\<Sum>item\<leftarrow>portfolio. initialInvestment item)"
  by (simp add: totalInvestment_def foldl_plus_sum_list)

text \<open>
  C4. For every list of positions and every price map, the total value is the sum of
  price-or-0 times quantity, the total investment is the sum of the cost bases, the
  total profit is their difference, and the profit percentage is profit over
  investment times 100 when the investment is positive and 0 when it is 0. A position
  whose asset has no price adds nothing to the total value: the total is that of the
  other positions. The functions are total, so no price map makes the computation fail.
\<close>

theorem valuation_aggregation:
  "totalValue ps portfolio =
     (\<Sum>item\<leftarrow>portfolio.
        (case ps of None \<Rightarrow> 0
         | Some m \<Rightarrow> (case m (cryptoId item) of None \<Rightarrow> 0 | Some p \<Rightarrow> p)) * amount item)
   \<and> totalInvestment portfolio = (\<Sum>item\<leftarrow>portfolio. initialInvestment item)
   \<and> totalProfit ps portfolio = totalValue ps portfolio - totalInvestment portfolio
   \<and> (totalInvestment portfolio > 0 \<longrightarrow>
        profitPercentage ps portfolio =
          (totalProfit ps portfolio / totalInvestment portfolio) * 100)
   \<and> (totalInvestment portfolio = 0 \<longrightarrow> profitPercentage ps portfolio = 0)
   \<and> ((case ps of None \<Rightarrow> True | Some m \<Rightarrow> m (cryptoId x) = None) \<longrightarrow>
        totalValue ps (before @ x # after) = totalValue ps (before @ after))"
proof (intro conjI impI)
  show "totalValue ps portfolio =
     (\<Sum>item\<leftarrow>portfolio.
        (case ps of None \<Rightarrow> 0
         | Some m \<Rightarrow> (case m (cryptoId item) of None \<Rightarrow> 0 | Some p \<Rightarrow> p)) * amount item)"
    unfolding totalValue_sum by (simp add: currentPrice_def)
  show "totalInvestment portfolio = (\<Sum>item\<leftarrow>portfolio. initialInvestment item)"
    by (rule totalInvestment_sum)
  show "totalProfit ps portfolio = totalValue ps portfolio - totalInvestment portfolio"
    by (simp add: totalProfit_def)
  show "profitPercentage ps portfolio = (totalProfit ps portfolio / totalInvestment portfolio) * 100"
    if "totalInvestment portfolio > 0"
    using that by (simp add: profitPercentage_def totalProfit_def)
  show "profitPercentage ps portfolio = 0" if "totalInvestment portfolio = 0"
    using that by (simp add: profitPercentage_def)
  show "totalValue ps (before @ x # after) = totalValue ps (before @ after)"
    if "case ps of None \<Rightarrow> True | Some m \<Rightarrow> m (cryptoId x) = None"
  proof -
    have "currentPrice ps x = 0"
      using that by (simp add: currentPrice_def split: option.splits)
    then show ?thesis
      by (simp add: totalValue_sum)
  qed
qed

theorem valuation_aggregation_witness:
  "totalValue (Some [''bitcoin'' \<mapsto> 10])
      [\<lparr>item_id = ''1'', cryptoId = ''bitcoin'', symbol = ''BTC'', amount = 2,
         initialInvestment = 10, purchaseDate = ''2024-01-01''\<rparr>,
       \<lparr>item_id = ''2'', cryptoId = ''ethereum'', symbol = ''ETH'', amount = 3,
         initialInvestment = 6, purchaseDate = ''2024-01-02''\<rparr>] = 20
   \<and> totalInvestment
      [\<lparr>item_id = ''1'', cryptoId = ''bitcoin'', symbol = ''BTC'', amount = 2,
         initialInvestment = 10, purchaseDate = ''2024-01-01''\<rparr>,
       \<lparr>item_id = ''2'', cryptoId = ''ethereum'', symbol = ''ETH'', amount = 3,
         initialInvestment = 6, purchaseDate = ''2024-01-02''\<rparr>] = 16
   \<and> profitPercentage (Some [''bitcoin'' \<mapsto> 10])
      [\<lparr>item_id = ''1'', cryptoId = ''bitcoin'', symbol = ''BTC'', amount = 2,
         initialInvestment = 10, purchaseDate = ''2024-01-01''\<rparr>,
       \<lparr>item_id = ''2'', cryptoId = ''ethereum'', symbol = ''ETH'', amount = 3,
         initialInvestment = 6, purchaseDate = ''2024-01-02''\<rparr>] = 25
   \<and> totalValue (Some [''bitcoin'' \<mapsto> 10])
      [\<lparr>item_id = ''1'', cryptoId = ''bitcoin'', symbol = ''BTC'', amount = 2,
         initialInvestment = 10, purchaseDate = ''2024-01-01''\<rparr>,
       \<lparr>item_id = ''2'', cryptoId = ''ethereum'', symbol = ''ETH'', amount = 3,
         initialInvestment = 6, purchaseDate = ''2024-01-02''\<rparr>]
     = totalValue (Some [''bitcoin'' \<mapsto> 10])
      [\<lparr>item_id = ''1'', cryptoId = ''bitcoin'', symbol = ''BTC'', amount = 2,
         initialInvestment = 10, purchaseDate = ''2024-01-01''\<rparr>]
   \<and> totalValue (Some [''bitcoin'' \<mapsto> 10])
      [\<lparr>item_id = ''3'', cryptoId = ''bitcoin'', symbol = ''BTC'', amount = 2,
         initialInvestment = 0, purchaseDate = ''2024-01-03''\<rparr>] = 20
   \<and> profitPercentage (Some [''bitcoin'' \<mapsto> 10])
      [\<lparr>item_id = ''3'', cryptoId = ''bitcoin'', symbol = ''BTC'', amount = 2,
         initialInvestment = 0, purchaseDate = ''2024-01-03''\<rparr>] = 0"
  using
    valuation_aggregation
      [of "Some [''bitcoin'' \<mapsto> 10]"
          "[\<lparr>item_id = ''1'', cryptoId = ''bitcoin'', symbol = ''BTC'', amount = 2,
              initialInvestment = 10, purchaseDate = ''2024-01-01''\<rparr>,
            \<lparr>item_id = ''2'', cryptoId = ''ethereum'', symbol = ''ETH'', amount = 3,
              initialInvestment = 6, purchaseDate = ''2024-01-02''\<rparr>]"
          "\<lparr>item_id = ''2'', cryptoId = ''ethereum'', symbol = ''ETH'', amount = 3,
              initialInvestment = 6, purchaseDate = ''2024-01-02''\<rparr>"
          "[\<lparr>item_id = ''1'', cryptoId = ''bitcoin'', symbol = ''BTC'', amount = 2,
              initialInvestment = 10, purchaseDate = ''2024-01-01''\<rparr>]"
          "[]"]
    valuation_aggregation
      [of "Some [''bitcoin'' \<mapsto> 10]"
          "[\<lparr>item_id = ''3'', cryptoId = ''bitcoin'', symbol = ''BTC'', amount = 2,
              initialInvestment = 0, purchaseDate = ''2024-01-03''\<rparr>]"
          "\<lparr>item_id = ''2'', cryptoId = ''ethereum'', symbol = ''ETH'', amount = 3,
              initialInvestment = 6, purchaseDate = ''2024-01-02''\<rparr>"
          "[]" "[]"]
  by simp

text \<open>
  C5. The row of a position computes \<^verbatim>\<open>(profit / item.initialInvestment) * 100\<close>
  with no guard. At a cost basis of 0 and a positive quantity it yields Infinity when
  the position has a value, and NaN when it has none, where the aggregate computation
  on the same position yields 0.
\<close>

theorem zero_cost_basis_row:
  "row_profitPercentage (Some [''bitcoin'' \<mapsto> 10])
      \<lparr>item_id = ''3'', cryptoId = ''bitcoin'', symbol = ''BTC'', amount = 2,
        initialInvestment = 0, purchaseDate = ''2024-01-03''\<rparr> = PosInf
   \<and> row_profitPercentage None
      \<lparr>item_id = ''3'', cryptoId = ''bitcoin'', symbol = ''BTC'', amount = 2,
        initialInvestment = 0, purchaseDate = ''2024-01-03''\<rparr> = NaN
   \<and> profitPercentage (Some [''bitcoin'' \<mapsto> 10])
      [\<lparr>item_id = ''3'', cryptoId = ''bitcoin'', symbol = ''BTC'', amount = 2,
         initialInvestment = 0, purchaseDate = ''2024-01-03''\<rparr>] = 0"
  by (simp add: row_profitPercentage_def row_profit_def row_currentValue_def currentPrice_def
      profitPercentage_def totalInvestment_def)

text \<open>With a non-zero quantity and a non-zero cost basis the row is the quotient formulas.\<close>

lemma row_metrics_nonzero:
  assumes "amount item \<noteq> 0" and "initialInvestment item \<noteq> 0"
  shows "row_purchasePrice item = Fin (initialInvestment item / amount item)
     \<and> row_currentValue ps item = currentPrice ps item * amount item
     \<and> row_profit ps item = row_currentValue ps item - initialInvestment item
     \<and> row_profitPercentage ps item = Fin ((row_profit ps item / initialInvestment item) * 100)"
  using assms
  by (simp add: row_purchasePrice_def row_currentValue_def row_profit_def row_profitPercentage_def)

section \<open>Properties of the add-investment validation\<close>

text \<open>
  C10. A submission whose quantity reads as 0 passes \<^verbatim>\<open>addInvestmentSchema\<close>: the
  transform rejects NaN and values below 0 only. For the position it creates, the
  purchase price \<^verbatim>\<open>initialInvestment / amount\<close> is a division by zero.
\<close>

theorem zero_quantity_accepted:
  "addInvestmentSchema
      \<lparr>form_cryptoId = ''bitcoin'', form_symbol = ''BTC'', form_amount = Fin 0,
        form_initialInvestment = Fin 100\<rparr>
     = Inr \<lparr>input_cryptoId = ''bitcoin'', input_symbol = ''BTC'', input_amount = Fin 0,
            input_initialInvestment = Fin 100\<rparr>
   \<and> row_purchasePrice
      \<lparr>item_id = ''4'', cryptoId = ''bitcoin'', symbol = ''BTC'', amount = 0,
        initialInvestment = 100, purchaseDate = ''2024-01-04''\<rparr> = PosInf"
  by (simp add: addInvestmentSchema_def amount_transform_def initialInvestment_transform_def
      row_purchasePrice_def)

text \<open>What the schema accepts.\<close>

lemma addInvestmentSchema_accepts:
  "(\<exists>input. addInvestmentSchema form = Inr input) \<longleftrightarrow>
     form_cryptoId form \<noteq> [] \<and> form_symbol form \<noteq> []
     \<and> \<not> isNaN (form_amount form) \<and> \<not> js_lt (form_amount form) (Fin 0)
     \<and> \<not> isNaN (form_initialInvestment form) \<and> \<not> js_lt (form_initialInvestment form) (Fin 0)"
  by (auto simp: addInvestmentSchema_def amount_transform_def initialInvestment_transform_def
      Suc_le_eq)


end
